theory Spec2Isabelle
  imports Main "HOL-Library.Char_ord" "HOL-Library.List_Lexorder" "HOL-Library.Multiset"
begin

section \<open>Strings\<close>

text \<open>
  The build script \<^verbatim>\<open>scripts/build.ts\<close> works on JavaScript strings, sequences of
  code units. A string that the build reads (a file name, markup, a version, a name or a
  tag of the catalog) is modelled as a \<^typ>\<open>string\<close>: one \<^typ>\<open>char\<close> stands for one code unit,
  so the theory covers the strings that the build reads with code units below \<^verbatim>\<open>0x100\<close>,
  the range of ISO Latin-1. \<^verbatim>\<open><\<close> on JavaScript strings compares code units
  lexicographically, a proper prefix being smaller; this is the order of lists used below.

  Upper-casing leaves this range at two code units: \<^verbatim>\<open>0xB5\<close> (the micro sign) becomes
  \<^verbatim>\<open>0x39C\<close> and \<^verbatim>\<open>0xFF\<close> becomes \<^verbatim>\<open>0x178\<close>. So a string that the build derives with
  \<^verbatim>\<open>toUpperCase\<close>, and every text that contains one, is a list of code units given by their
  numbers. \<open>wide\<close> turns a string that was read into such a list.
\<close>

definition wide :: "string \<Rightarrow> nat list" where
  "wide s = map of_char s"

text \<open>
  \<^verbatim>\<open>s.toLowerCase()\<close> on code units below \<^verbatim>\<open>0x100\<close> works unit by unit: the letters
  \<^verbatim>\<open>0x41\<close>..\<^verbatim>\<open>0x5A\<close> (\<^verbatim>\<open>A\<close> to \<^verbatim>\<open>Z\<close>) and \<^verbatim>\<open>0xC0\<close>..\<^verbatim>\<open>0xDE\<close> without the multiplication sign
  \<^verbatim>\<open>0xD7\<close> move up by \<^verbatim>\<open>0x20\<close>; every other code unit stays.
\<close>

definition lower_char :: "char \<Rightarrow> char" where
  "lower_char c =
     (let n = (of_char c :: nat) in
      if (0x41 \<le> n \<and> n \<le> 0x5A) \<or> (0xC0 \<le> n \<and> n \<le> 0xDE \<and> n \<noteq> 0xD7)
      then char_of (n + 0x20) else c)"

definition toLowerCase :: "string \<Rightarrow> string" where
  "toLowerCase s = map lower_char s"

text \<open>
  \<^verbatim>\<open>s.toUpperCase()\<close> on code units below \<^verbatim>\<open>0x100\<close> works unit by unit as well: the letters
  \<^verbatim>\<open>0x61\<close>..\<^verbatim>\<open>0x7A\<close> (\<^verbatim>\<open>a\<close> to \<^verbatim>\<open>z\<close>) and \<^verbatim>\<open>0xE0\<close>..\<^verbatim>\<open>0xFE\<close> without the division sign
  \<^verbatim>\<open>0xF7\<close> move down by \<^verbatim>\<open>0x20\<close>; the sharp s \<^verbatim>\<open>0xDF\<close> becomes the two letters \<^verbatim>\<open>SS\<close>; the
  micro sign \<^verbatim>\<open>0xB5\<close> becomes the Greek capital \<^verbatim>\<open>0x39C\<close>; \<^verbatim>\<open>0xFF\<close> becomes \<^verbatim>\<open>0x178\<close>; every
  other code unit stays.
\<close>

definition upper_unit :: "char \<Rightarrow> nat list" where
  "upper_unit c =
     (let n = (of_char c :: nat) in
      if (0x61 \<le> n \<and> n \<le> 0x7A) \<or> (0xE0 \<le> n \<and> n \<le> 0xFE \<and> n \<noteq> 0xF7) then [n - 0x20]
      else if n = 0xDF then [0x53, 0x53]
      else if n = 0xB5 then [0x39C]
      else if n = 0xFF then [0x178]
      else [n])"

definition toUpperCase :: "string \<Rightarrow> nat list" where
  "toUpperCase s = concat (map upper_unit s)"


text \<open>\<^verbatim>\<open>s.startsWith(p)\<close> and \<^verbatim>\<open>s.endsWith(p)\<close>.\<close>

definition startsWith :: "string \<Rightarrow> string \<Rightarrow> bool" where
  "startsWith s p = (take (length p) s = p)"

definition endsWith :: "string \<Rightarrow> string \<Rightarrow> bool" where
  "endsWith s p = (length p \<le> length s \<and> drop (length s - length p) s = p)"

text \<open>
  \<^verbatim>\<open>s.split(sep)\<close> for a separator that matches exactly one character: the one-character
  string \<^verbatim>\<open>'.'\<close> or \<^verbatim>\<open>'-'\<close>, or the character class \<^verbatim>\<open>/[-_]/g\<close>. The predicate says which
  characters separate. The result is never empty: the empty string splits into one empty
  segment, and two adjacent separators enclose an empty segment.
\<close>

fun split_on :: "(char \<Rightarrow> bool) \<Rightarrow> string \<Rightarrow> string list" where
  "split_on p [] = [[]]"
| "split_on p (c # cs) =
     (if p c then [] # split_on p cs
      else (let segments = split_on p cs in (c # hd segments) # tl segments))"

text \<open>\<^verbatim>\<open>join(a, b)\<close> of the \<^verbatim>\<open>path\<close> module, for a directory and one plain segment.\<close>

definition join :: "string \<Rightarrow> string \<Rightarrow> string" where
  "join a b = a @ ''/'' @ b"

section \<open>Errors\<close>

datatype error =
    NotLowercase string      \<comment> \<open>\<^verbatim>\<open>svg filename "..." must be all lowercase\<close>\<close>
  | TooManyPeriods string    \<comment> \<open>\<^verbatim>\<open>svg filename "..." cannot contain more than one period\<close>\<close>
  | TypeError                \<comment> \<open>a method called on \<^verbatim>\<open>undefined\<close> or \<^verbatim>\<open>null\<close>\<close>
  | ReadError string         \<comment> \<open>a file that cannot be read, by path\<close>
  | OptimizeError string     \<comment> \<open>markup that the optimizer rejects, by path\<close>

section \<open>camelize\<close>

text \<open>
  \<^verbatim>\<open>function upFirst(word) { return word[0].toUpperCase() + word.toLowerCase().slice(1); }\<close>

  On the empty string \<^verbatim>\<open>word[0]\<close> is \<^verbatim>\<open>undefined\<close> and the call of \<^verbatim>\<open>toUpperCase\<close> throws.
\<close>

fun upFirst :: "string \<Rightarrow> error + nat list" where
  "upFirst [] = Inl TypeError"
| "upFirst (c # cs) = Inr (toUpperCase [c] @ wide (drop 1 (toLowerCase (c # cs))))"

text \<open>
  A sequential \<^verbatim>\<open>map\<close> or \<^verbatim>\<open>forEach\<close> whose callback may throw: the first element that
  throws ends the evaluation with its error.
\<close>

fun collect :: "(error + 'a) list \<Rightarrow> error + 'a list" where
  "collect [] = Inr []"
| "collect (r # rs) =
     (case r of
        Inl e \<Rightarrow> Inl e
      | Inr x \<Rightarrow> (case collect rs of Inl e \<Rightarrow> Inl e | Inr xs \<Rightarrow> Inr (x # xs)))"

text \<open>
  \<^verbatim>\<open>function camelize(text) {
    let words = text.split(/[-_]/g);
    return words[0].toLowerCase() + words.slice(1).map(upFirst).join('');
  }\<close>
\<close>

definition is_sep :: "char \<Rightarrow> bool" where
  "is_sep c = (c = CHR ''-'' \<or> c = CHR ''_'')"

definition camelize :: "string \<Rightarrow> error + nat list" where
  "camelize text =
     (let words = split_on is_sep text in
      case collect (map upFirst (tl words)) of
        Inl e \<Rightarrow> Inl e
      | Inr us \<Rightarrow> Inr (wide (toLowerCase (hd words)) @ concat us))"

text \<open>
  The camel-case conversion in the words of the specification: split on hyphen or
  underscore, lower-case the first segment entirely, upper-case the first character of every
  later segment and lower-case its remainder, concatenate with no separator.
\<close>

definition camel_segment :: "string \<Rightarrow> nat list" where
  "camel_segment w = toUpperCase (take 1 w) @ wide (toLowerCase (drop 1 w))"

definition camelize_spec :: "string \<Rightarrow> nat list" where
  "camelize_spec text =
     (case split_on is_sep text of
        [] \<Rightarrow> []
      | w # ws \<Rightarrow> wide (toLowerCase w) @ concat (map camel_segment ws))"

section \<open>The attribute rules of the optimizer\<close>

text \<open>
  The plugin \<^verbatim>\<open>addFillNoneCss\<close> is called by the optimizer once per parsed item. Of the
  optimizer's item interface the plugin uses \<^verbatim>\<open>isElem\<close>, \<^verbatim>\<open>eachAttr\<close>, \<^verbatim>\<open>removeAttr\<close> and
  \<^verbatim>\<open>class.add\<close>. The optimizer is a library and not part of the repository; an item is
  modelled after the library the script is written against (\<^verbatim>\<open>svgo\<close> 1.x, \<^verbatim>\<open>lib/svgo/jsAPI.js\<close>
  and \<^verbatim>\<open>lib/svgo/css-class-list.js\<close>), by what the four operations read and change:

  \<^item> \<open>attrs\<close> is the attribute object \<^verbatim>\<open>item.attrs\<close>: \<open>None\<close> when the item has no such
    property, otherwise its attributes other than \<^verbatim>\<open>class\<close> as name and value, in the order
    of the keys. The names are distinct, as they are the keys of one object.
  \<^item> \<open>classAttr\<close> says whether the attribute object has the key \<^verbatim>\<open>class\<close>. The value of
    that attribute is not stored: it is computed from the class list when it is read.
  \<^item> \<open>classNames\<close> is the set of \<^verbatim>\<open>item.class\<close>, in the order of insertion.

  The class list does not reach the attribute object through the item. It keeps the
  object that the parser created, which is the one the item starts with. When
  \<^verbatim>\<open>removeAttr\<close> removes the last key it also deletes \<^verbatim>\<open>item.attrs\<close>; from then on the class
  list and the item are apart, and a class attribute that \<^verbatim>\<open>class.add\<close> installs lands on an
  object that the item no longer has.
\<close>

record item =
  isElem :: bool
  attrs :: "(string \<times> string) list option"
  classAttr :: bool
  classNames :: "string list"

text \<open>
  \<^verbatim>\<open>item.removeAttr(name)\<close>: nothing happens when the item has no attribute object or the
  object has no such key; otherwise the key is deleted, and when no key is left,
  \<^verbatim>\<open>item.attrs\<close> is deleted as well.
\<close>

definition removeAttr :: "item \<Rightarrow> string \<Rightarrow> item" where
  "removeAttr it n =
     (case attrs it of
        None \<Rightarrow> it
      | Some kv \<Rightarrow>
          if n = ''class'' then
            (if \<not> classAttr it then it
             else if kv = [] then it\<lparr>attrs := None, classAttr := False\<rparr>
             else it\<lparr>classAttr := False\<rparr>)
          else if n \<notin> fst ` set kv then it
          else
            (let kv' = filter (\<lambda>a. fst a \<noteq> n) kv in
             if kv' = [] \<and> \<not> classAttr it then it\<lparr>attrs := None\<rparr>
             else it\<lparr>attrs := Some kv'\<rparr>))"

text \<open>
  \<^verbatim>\<open>item.class.add(c)\<close>: the key \<^verbatim>\<open>class\<close> is installed on the attribute object that the class
  list keeps, which shows on the item only while the item still has that object; then
  the class enters the set.
\<close>

definition class_add :: "item \<Rightarrow> string \<Rightarrow> item" where
  "class_add it c =
     it\<lparr>classAttr := (attrs it \<noteq> None),
        classNames := (if c \<in> set (classNames it) then classNames it else classNames it @ [c])\<rparr>"

text \<open>The callback given to \<^verbatim>\<open>item.eachAttr\<close>, for one attribute \<^verbatim>\<open>attr\<close>.\<close>

definition addFillNoneCss_attr :: "string \<times> string \<Rightarrow> item \<Rightarrow> item" where
  "addFillNoneCss_attr attr it =
     (if fst attr = ''fill'' then
        removeAttr (if snd attr = ''none'' then class_add it ''ionicon-fill-none'' else it) ''fill''
      else if fst attr = ''stroke'' then
        removeAttr it ''stroke''
      else if fst attr = ''stroke-width'' \<and> snd attr = ''32'' then
        class_add (removeAttr it ''stroke-width'') ''ionicon-stroke-width''
      else it)"

text \<open>
  \<^verbatim>\<open>item.eachAttr(callback)\<close> is a \<^verbatim>\<open>for\<close>-\<^verbatim>\<open>in\<close> loop over the keys that the attribute object has
  when the loop starts; a key that has been deleted before its turn is passed over. The
  key \<^verbatim>\<open>class\<close> has no rule in the callback, so its turn changes nothing and is left out.
\<close>

definition eachAttr_step ::
  "(string \<times> string \<Rightarrow> item \<Rightarrow> item) \<Rightarrow> string \<times> string \<Rightarrow> item \<Rightarrow> item" where
  "eachAttr_step callback attr it =
     (case attrs it of
        None \<Rightarrow> it
      | Some kv \<Rightarrow> if attr \<in> set kv then callback attr it else it)"

definition eachAttr :: "(string \<times> string \<Rightarrow> item \<Rightarrow> item) \<Rightarrow> item \<Rightarrow> item" where
  "eachAttr callback it =
     (case attrs it of
        None \<Rightarrow> it
      | Some kv \<Rightarrow> fold (eachAttr_step callback) kv it)"

definition addFillNoneCss :: "item \<Rightarrow> item" where
  "addFillNoneCss it = (if isElem it then eachAttr addFillNoneCss_attr it else it)"

text \<open>
  What the optimizer prints for the item afterwards: the attributes of the attribute
  object, if the item still has one, and as the value of \<^verbatim>\<open>class\<close> the classes of the class
  list, if the attribute object of the item has that key.
\<close>

definition printed_attrs :: "item \<Rightarrow> (string \<times> string) list" where
  "printed_attrs it = (case attrs it of None \<Rightarrow> [] | Some kv \<Rightarrow> kv)"

definition printed_classes :: "item \<Rightarrow> string list" where
  "printed_classes it =
     (case attrs it of
        None \<Rightarrow> []
      | Some kv \<Rightarrow> if classAttr it then classNames it else [])"

section \<open>Icon records, catalog and files\<close>

text \<open>
  \<^verbatim>\<open>interface SvgData\<close>; \<^verbatim>\<open>optimizedSvgContent\<close> is \<^verbatim>\<open>null\<close> until the optimizer has run.
  \<^verbatim>\<open>exportName\<close> comes out of \<^verbatim>\<open>toUpperCase\<close>, so it is a list of code units by number.
\<close>

record SvgData =
  fileName :: string
  srcFilePath :: string
  optimizedFilePath :: string
  srcSvgContent :: string
  optimizedSvgContent :: "string option"
  iconName :: string
  fileNameMjs :: string
  fileNameCjs :: string
  exportName :: "nat list"

text \<open>
  \<^verbatim>\<open>interface JsonData { icons: { name: string; tags?: string[]; } []; version?: string; }\<close>

  A property that is absent (or \<^verbatim>\<open>null\<close>) is \<open>None\<close>. \<open>data_others\<close> holds the further
  top-level properties of the parsed file, each as its key and its JSON text; the script
  never reads or writes them.
\<close>

record icon =
  name :: string
  tags :: "string list option"

record JsonData =
  data_icons :: "icon list option"
  data_version :: "string option"
  data_others :: "(string \<times> string) list"

text \<open>The object \<^verbatim>\<open>{}\<close> that replaces a catalog which cannot be read.\<close>

definition empty_data :: JsonData where
  "empty_data = \<lparr>data_icons = None, data_version = None, data_others = []\<rparr>"

text \<open>\<^verbatim>\<open>distJsonData\<close> of \<^verbatim>\<open>createDataJson\<close> and \<^verbatim>\<open>iconPkgJson\<close> of \<^verbatim>\<open>createIconPackage\<close>.\<close>

record DistJsonData =
  dist_name :: string
  dist_version :: string
  dist_icons :: "icon list"

record IconPkgJson =
  pkg_name :: string
  pkg_version :: string
  pkg_module :: string
  pkg_main :: string
  pkg_typings :: string
  pkg_sideEffects :: "string list"
  pkg_private :: bool

text \<open>
  What a file is written with: a text, as its code units by number, or a JSON file. A
  JSON file is \<^verbatim>\<open>JSON.stringify(value, null, 2) + '\n'\<close>; it is represented by the value
  that is serialised.
\<close>

datatype content =
    Text "nat list"
  | DataJson JsonData
  | DistJson DistJsonData
  | PkgJson IconPkgJson

text \<open>The operations of the build on the file system that change it.\<close>

datatype fs_op =
    EmptyDir string
  | EnsureDir string
  | WriteFile string content
  | CopyFile string string

text \<open>An operation that leaves a file behind.\<close>

fun writes_file :: "fs_op \<Rightarrow> bool" where
  "writes_file (EmptyDir d) = False"
| "writes_file (EnsureDir d) = False"
| "writes_file (WriteFile p c) = True"
| "writes_file (CopyFile p q) = True"

text \<open>
  What the build reads: the \<^verbatim>\<open>version\<close> of a package manifest by path (\<^verbatim>\<open>readJson\<close>), a
  directory listing by path (\<^verbatim>\<open>readdir\<close>), the text of a file by path (\<^verbatim>\<open>readFile\<close>), the
  parsed catalog by path (\<^verbatim>\<open>readJson\<close>), and the result of \<^verbatim>\<open>svgo.optimize\<close> on a markup
  with the plugin configuration of \<^verbatim>\<open>optimizeSvgs\<close>. \<open>None\<close> is a read, a parse or an
  optimization that fails. The build reads under \<^verbatim>\<open>src\<close>, \<^verbatim>\<open>scripts\<close> and the manifest only,
  and writes none of the files it reads except the catalog, which it reads before;
  writing is taken to succeed.
\<close>

record world =
  pkgJson :: "string \<Rightarrow> string option"
  readdir :: "string \<Rightarrow> string list option"
  readFile :: "string \<Rightarrow> string option"
  dataJson :: "string \<Rightarrow> JsonData option"
  svgo_optimize :: "string \<Rightarrow> string option"

text \<open>
  An asynchronous function: the operations it performed, and its error or its result.
\<close>

type_synonym 'a io = "fs_op list \<times> (error + 'a)"

definition io_ok :: "'a \<Rightarrow> 'a io" where
  "io_ok x = ([], Inr x)"

definition io_fail :: "error \<Rightarrow> 'a io" where
  "io_fail e = ([], Inl e)"

definition io_do :: "fs_op list \<Rightarrow> unit io" where
  "io_do ops = (ops, Inr ())"

text \<open>\<^verbatim>\<open>const x = await m; ...\<close>: what follows runs only when \<open>m\<close> has not thrown.\<close>

definition io_bind :: "'a io \<Rightarrow> ('a \<Rightarrow> 'b io) \<Rightarrow> 'b io" where
  "io_bind m f =
     (case snd m of
        Inl e \<Rightarrow> (fst m, Inl e)
      | Inr x \<Rightarrow> (fst m @ fst (f x), snd (f x)))"

text \<open>
  An error thrown after the first \<^verbatim>\<open>await\<close> of an asynchronous function. An error thrown
  before it rejects the promise at once.
\<close>

fun deferred :: "error \<Rightarrow> bool" where
  "deferred (ReadError p) = True"
| "deferred (OptimizeError p) = True"
| "deferred e = False"

fun lefts :: "('e + 'a) list \<Rightarrow> 'e list" where
  "lefts [] = []"
| "lefts (Inl e # rs) = e # lefts rs"
| "lefts (Inr x # rs) = lefts rs"

fun rights :: "('e + 'a) list \<Rightarrow> 'a list" where
  "rights [] = []"
| "rights (Inl e # rs) = rights rs"
| "rights (Inr x # rs) = x # rights rs"

text \<open>
  \<^verbatim>\<open>Promise.all\<close> over tasks that have all been started: it rejects with the first
  rejection. A task that threw before its first \<^verbatim>\<open>await\<close> is rejected before any that threw
  later; among those of one kind the model takes the first of the list. No task is
  cancelled, so the operations of all of them are performed, listed task by task.
\<close>

definition promise_all :: "(error + 'a) list \<Rightarrow> error + 'a list" where
  "promise_all rs =
     (case filter (\<lambda>e. \<not> deferred e) (lefts rs) @ filter deferred (lefts rs) of
        e # es \<Rightarrow> Inl e
      | [] \<Rightarrow> Inr (rights rs))"

definition io_all :: "'a io list \<Rightarrow> 'a list io" where
  "io_all ms = (concat (map fst ms), promise_all (map snd ms))"

section \<open>The loader\<close>

text \<open>
  The callback of \<^verbatim>\<open>svgFiles.map\<close> in \<^verbatim>\<open>getSvgs\<close>, for one file name. The two checks and
  \<^verbatim>\<open>camelize\<close> run before the file is read.
\<close>

definition svgDataOf :: "world \<Rightarrow> string \<Rightarrow> string \<Rightarrow> string \<Rightarrow> error + SvgData" where
  "svgDataOf w srcSvgDir optimizedSvgDir fname =
     (if toLowerCase fname \<noteq> fname then Inl (NotLowercase fname)
      else
        let dotSplit = split_on (\<lambda>c. c = CHR ''.'') fname in
        if length dotSplit > 2 then Inl (TooManyPeriods fname)
        else
          let iname = hd dotSplit in
          case camelize iname of
            Inl e \<Rightarrow> Inl e
          | Inr ename \<Rightarrow>
              (case readFile w (join srcSvgDir fname) of
                 None \<Rightarrow> Inl (ReadError (join srcSvgDir fname))
               | Some text \<Rightarrow>
                   Inr \<lparr>fileName = fname,
                        srcFilePath = join srcSvgDir fname,
                        optimizedFilePath = join optimizedSvgDir fname,
                        srcSvgContent = text,
                        optimizedSvgContent = None,
                        iconName = iname,
                        fileNameMjs = iname @ ''.mjs'',
                        fileNameCjs = iname @ ''.js'',
                        exportName = ename\<rparr>))"

text \<open>The filter of the directory listing in \<^verbatim>\<open>getSvgs\<close>.\<close>

definition is_svg_file :: "string \<Rightarrow> bool" where
  "is_svg_file fname = (\<not> startsWith fname ''.'' \<and> endsWith fname ''.svg'')"

text \<open>
  \<^verbatim>\<open>getSvgs(srcSvgDir, rootDir, distIoniconsDir)\<close>. The comparator of the final \<^verbatim>\<open>sort\<close>
  orders by \<^verbatim>\<open>exportName\<close>; \<^verbatim>\<open>Array.prototype.sort\<close> is stable.
\<close>

definition getSvgs :: "world \<Rightarrow> string \<Rightarrow> string \<Rightarrow> string \<Rightarrow> SvgData list io" where
  "getSvgs w srcSvgDir rootDir distIoniconsDir =
     (let optimizedSvgDir = join distIoniconsDir ''svg'' in
      io_bind (io_do [EmptyDir optimizedSvgDir]) (\<lambda>_.
      io_bind (case readdir w srcSvgDir of
                 None \<Rightarrow> io_fail (ReadError srcSvgDir)
               | Some listing \<Rightarrow> io_ok (filter is_svg_file listing)) (\<lambda>svgFiles.
      io_bind ([], promise_all (map (svgDataOf w srcSvgDir optimizedSvgDir) svgFiles)) (\<lambda>svgData.
      io_ok (sort_key exportName svgData)))))"

section \<open>The optimizer\<close>

text \<open>\<^verbatim>\<open>optimizeSvg(svgo, svgData)\<close>; the record with its optimized markup filled in is returned.\<close>

definition optimizeSvg :: "world \<Rightarrow> SvgData \<Rightarrow> SvgData io" where
  "optimizeSvg w svgData =
     (case readFile w (srcFilePath svgData) of
        None \<Rightarrow> io_fail (ReadError (srcFilePath svgData))
      | Some text \<Rightarrow>
          (case svgo_optimize w text of
             None \<Rightarrow> io_fail (OptimizeError (srcFilePath svgData))
           | Some optimized \<Rightarrow>
               ([WriteFile (optimizedFilePath svgData) (Text (wide optimized))],
                Inr (svgData\<lparr>optimizedSvgContent := Some optimized\<rparr>))))"

definition optimizeSvgs :: "world \<Rightarrow> SvgData list \<Rightarrow> SvgData list io" where
  "optimizeSvgs w srcSvgData = io_all (map (optimizeSvg w) srcSvgData)"

section \<open>The catalog\<close>

text \<open>
  The steps of \<^verbatim>\<open>createDataJson\<close> on \<^verbatim>\<open>data.icons\<close>, under the names of its comments.

  \<^verbatim>\<open>// add new icons\<close>: one icon record after the other, in the order of \<^verbatim>\<open>srcSvgData\<close>; an
  entry pushed for one record is seen by the test for the next.
\<close>

definition add_new_icon :: "SvgData \<Rightarrow> icon list \<Rightarrow> icon list" where
  "add_new_icon svgData icons =
     (if list_ex (\<lambda>i. name i = iconName svgData) icons then icons
      else icons @ [\<lparr>name = iconName svgData, tags = None\<rparr>])"

definition add_new_icons :: "SvgData list \<Rightarrow> icon list \<Rightarrow> icon list" where
  "add_new_icons srcSvgData icons = fold add_new_icon srcSvgData icons"

text \<open>\<^verbatim>\<open>// remove dead icons\<close>\<close>

definition remove_dead_icons :: "SvgData list \<Rightarrow> icon list \<Rightarrow> icon list" where
  "remove_dead_icons srcSvgData icons =
     filter (\<lambda>dataIcon. list_ex (\<lambda>svgData. name dataIcon = iconName svgData) srcSvgData) icons"

text \<open>\<^verbatim>\<open>// sort\<close>: by \<^verbatim>\<open>name\<close>, stable.\<close>

definition sort_icons :: "icon list \<Rightarrow> icon list" where
  "sort_icons icons = sort_key name icons"

text \<open>
  The body of the last \<^verbatim>\<open>forEach\<close>:
  \<^verbatim>\<open>icon.tags = icon.tags || icon.name.split('-'); icon.tags = icon.tags.sort();\<close>
  An array is truthy even when it is empty, so only absent tags are derived.
\<close>

definition fill_tags :: "icon \<Rightarrow> icon" where
  "fill_tags i =
     i\<lparr>tags := Some (sort (case tags i of
                             Some ts \<Rightarrow> ts
                           | None \<Rightarrow> split_on (\<lambda>c. c = CHR ''-'') (name i)))\<rparr>"

text \<open>The entries that \<^verbatim>\<open>createDataJson\<close> leaves in \<^verbatim>\<open>data.icons\<close>.\<close>

definition reconcile :: "SvgData list \<Rightarrow> icon list \<Rightarrow> icon list" where
  "reconcile srcSvgData icons =
     map fill_tags (sort_icons (remove_dead_icons srcSvgData (add_new_icons srcSvgData icons)))"

text \<open>
  \<^verbatim>\<open>createDataJson(version, srcDir, distDir, srcSvgData)\<close>. \<open>data\<close> is the parsed catalog, or
  \<^verbatim>\<open>{}\<close> when reading it throws; \<^verbatim>\<open>data.icons || []\<close> starts from no entries when the
  property is absent.
\<close>

definition read_catalog :: "world \<Rightarrow> string \<Rightarrow> JsonData" where
  "read_catalog w srcDataJsonPath =
     (case dataJson w srcDataJsonPath of Some d \<Rightarrow> d | None \<Rightarrow> empty_data)"

definition createDataJson :: "world \<Rightarrow> string \<Rightarrow> string \<Rightarrow> string \<Rightarrow> SvgData list \<Rightarrow> unit io" where
  "createDataJson w version srcDir distDir srcSvgData =
     (let srcDataJsonPath = join srcDir ''data.json'';
          distDataJsonPath = join distDir ''ionicons.json'';
          data = read_catalog w srcDataJsonPath;
          icons = reconcile srcSvgData (case data_icons data of Some xs \<Rightarrow> xs | None \<Rightarrow> []);
          distJsonData = \<lparr>dist_name = ''ionicons'', dist_version = version, dist_icons = icons\<rparr>
      in io_do [WriteFile srcDataJsonPath (DataJson (data\<lparr>data_icons := Some icons\<rparr>)),
                WriteFile distDataJsonPath (DistJson distJsonData)])"

section \<open>The icon package\<close>

text \<open>\<^verbatim>\<open>lines.join(sep)\<close>\<close>

fun join_with :: "'a list \<Rightarrow> 'a list list \<Rightarrow> 'a list" where
  "join_with sep [] = []"
| "join_with sep [x] = x"
| "join_with sep (x # y # ys) = x @ sep @ join_with sep (y # ys)"

definition newline :: string where
  "newline = [CHR 0x0A]"

text \<open>\<^verbatim>\<open>createEsmIcons(version, iconDir, iconImportsDir, srcSvgData)\<close>\<close>

definition createEsmIcons :: "string \<Rightarrow> string \<Rightarrow> string \<Rightarrow> SvgData list \<Rightarrow> unit io" where
  "createEsmIcons version iconDir iconImportsDir srcSvgData =
     (let iconEsmFilePath = join iconDir ''index.mjs'';
          esmIndex =
            [wide (''/* Ionicons v'' @ version @ '', ES Modules */''), []] @
            map (\<lambda>svgData. wide ''import '' @ exportName svgData @
                            wide ('' from './imports/'' @ fileNameMjs svgData @ ''';''))
              srcSvgData @
            map (\<lambda>svgData. wide ''export { '' @ exportName svgData @ wide '' }'') srcSvgData
      in io_bind (io_all (map (\<lambda>svgData.
                    let varName = exportName svgData @ wide ''Svg'';
                        content = join_with (wide newline)
                          [wide ''import '' @ varName @
                             wide ('' from '../../dist/ionicons/svg/'' @ fileName svgData @ ''';''),
                           wide ''export default /*#__PURE__*/ '' @ varName @ wide '';'',
                           []]
                    in io_do [WriteFile (join iconImportsDir (fileNameMjs svgData)) (Text content)])
                  srcSvgData)) (\<lambda>_.
         io_do [WriteFile iconEsmFilePath
                  (Text (join_with (wide newline) esmIndex @ wide newline))]))"

text \<open>\<^verbatim>\<open>createCjsIcons(version, iconDir, iconImportsDir, srcSvgData)\<close>\<close>

definition createCjsIcons :: "string \<Rightarrow> string \<Rightarrow> string \<Rightarrow> SvgData list \<Rightarrow> unit io" where
  "createCjsIcons version iconDir iconImportsDir srcSvgData =
     (let iconCjsFilePath = join iconDir ''index.js'';
          cjsIndex =
            [wide (''/* Ionicons v'' @ version @ '', CommonJS */''), []] @
            map (\<lambda>svgData. wide ''exports.'' @ exportName svgData @
                            wide ('' = /*#__PURE__*/ require('./imports/'' @
                                  fileNameCjs svgData @ ''');''))
              srcSvgData
      in io_bind (io_all (map (\<lambda>svgData.
                    let content = join_with newline
                          [''module.exports = /*#__PURE__*/ require('../../dist/ionicons/svg/'' @
                             fileName svgData @ ''');'',
                           '''']
                    in io_do [WriteFile (join iconImportsDir (fileNameCjs svgData))
                                (Text (wide content))])
                  srcSvgData)) (\<lambda>_.
         io_do [WriteFile iconCjsFilePath
                  (Text (join_with (wide newline) cjsIndex @ wide newline))]))"

text \<open>\<^verbatim>\<open>createDtsIcons(version, iconDir, srcSvgData)\<close>\<close>

definition createDtsIcons :: "string \<Rightarrow> string \<Rightarrow> SvgData list \<Rightarrow> unit io" where
  "createDtsIcons version iconDir srcSvgData =
     (let iconDtsFilePath = join iconDir ''index.d.ts'';
          dtsIndex =
            [wide (''/* Ionicons v'' @ version @ '', Types */''), []] @
            map (\<lambda>svgData. wide ''export declare var '' @ exportName svgData @ wide '': string;'')
              srcSvgData
      in io_do [WriteFile iconDtsFilePath
                  (Text (join_with (wide newline) dtsIndex @ wide newline))])"

text \<open>\<^verbatim>\<open>createIconPackage(version, iconDir, srcSvgData)\<close>\<close>

definition createIconPackage :: "string \<Rightarrow> string \<Rightarrow> SvgData list \<Rightarrow> unit io" where
  "createIconPackage version iconDir srcSvgData =
     (let iconImportsDir = join iconDir ''imports'';
          iconPkgJsonFilePath = join iconDir ''package.json''
      in io_bind (io_do [EmptyDir iconImportsDir]) (\<lambda>_.
         io_bind (io_all [createEsmIcons version iconDir iconImportsDir srcSvgData,
                          createCjsIcons version iconDir iconImportsDir srcSvgData,
                          createDtsIcons version iconDir srcSvgData]) (\<lambda>_.
         let iconPkgJson = \<lparr>pkg_name = ''ionicons/icons'',
                            pkg_version = version,
                            pkg_module = ''index.mjs'',
                            pkg_main = ''index.js'',
                            pkg_typings = ''index.d.ts'',
                            pkg_sideEffects = [''imports/''],
                            pkg_private = True\<rparr>
         in io_do [WriteFile iconPkgJsonFilePath (PkgJson iconPkgJson)])))"

section \<open>The sprite and the cheatsheet\<close>

text \<open>
  The replacement text of \<^verbatim>\<open>String.prototype.replace\<close> for one match: \<^verbatim>\<open>$$\<close> is a dollar
  sign, \<^verbatim>\<open>$&\<close> the matched text, \<^verbatim>\<open>$`\<close> the text before the match and \<^verbatim>\<open>$'\<close> the text after
  it. The patterns of the script have no capture groups, so a dollar sign before anything
  else stands for itself.
\<close>

fun expand_replacement :: "string \<Rightarrow> string \<Rightarrow> string \<Rightarrow> string \<Rightarrow> string" where
  "expand_replacement matched pre post (c # d # r) =
     (if c = CHR ''$'' \<and> d = CHR ''$'' then CHR ''$'' # expand_replacement matched pre post r
      else if c = CHR ''$'' \<and> d = CHR ''&'' then matched @ expand_replacement matched pre post r
      else if c = CHR ''$'' \<and> d = CHR 0x60 then pre @ expand_replacement matched pre post r
      else if c = CHR ''$'' \<and> d = CHR 0x27 then post @ expand_replacement matched pre post r
      else c # expand_replacement matched pre post (d # r))"
| "expand_replacement matched pre post r = r"

text \<open>The first occurrence of \<open>pat\<close>: the text in front of it and the text behind it.\<close>

fun find_first :: "string \<Rightarrow> string \<Rightarrow> string \<Rightarrow> (string \<times> string) option" where
  "find_first pat pre [] = (if pat = [] then Some (pre, []) else None)"
| "find_first pat pre (c # cs) =
     (if startsWith (c # cs) pat then Some (pre, drop (length pat) (c # cs))
      else find_first pat (pre @ [c]) cs)"

text \<open>\<^verbatim>\<open>s.replace(pat, repl)\<close> for a string \<open>pat\<close>: the first occurrence only.\<close>

definition js_replace :: "string \<Rightarrow> string \<Rightarrow> string \<Rightarrow> string" where
  "js_replace pat repl s =
     (case find_first pat [] s of
        None \<Rightarrow> s
      | Some (pre, post) \<Rightarrow> pre @ expand_replacement pat pre post repl @ post)"

text \<open>
  \<^verbatim>\<open>s.replace(/pat/g, repl)\<close> for a pattern that is one literal, non-empty text: every
  occurrence, found from left to right in \<open>s\<close> without overlap. \<open>skip\<close> counts the characters
  of the current match that are still to be passed over.
\<close>

fun replace_all_from :: "string \<Rightarrow> string \<Rightarrow> nat \<Rightarrow> string \<Rightarrow> string \<Rightarrow> string" where
  "replace_all_from pat repl skip pre [] = []"
| "replace_all_from pat repl skip pre (c # cs) =
     (if 0 < skip then replace_all_from pat repl (skip - 1) (pre @ [c]) cs
      else if startsWith (c # cs) pat then
        expand_replacement pat pre (drop (length pat) (c # cs)) repl @
        replace_all_from pat repl (length pat - 1) (pre @ [c]) cs
      else c # replace_all_from pat repl 0 (pre @ [c]) cs)"

definition js_replace_all :: "string \<Rightarrow> string \<Rightarrow> string \<Rightarrow> string" where
  "js_replace_all pat repl s = replace_all_from pat repl 0 [] s"

text \<open>
  One line of the sprite: the optimized markup with its root tags rewritten. Before the
  optimizer has run the markup is \<^verbatim>\<open>null\<close>, and \<^verbatim>\<open>replace\<close> on it throws.
\<close>

definition symbol_of :: "SvgData \<Rightarrow> error + string" where
  \<open>symbol_of svgData =
     (case optimizedSvgContent svgData of
        None \<Rightarrow> Inl TypeError
      | Some optimized \<Rightarrow>
          Inr (js_replace ''</svg>'' ''</symbol>''
                (js_replace ''<svg xmlns="http://www.w3.org/2000/svg"''
                            (''<symbol id="'' @ iconName svgData @ ''"'') optimized)))\<close>

text \<open>
  \<^verbatim>\<open>createSvgSymbols(version, distDir, srcSvgData)\<close>. \<^verbatim>\<open>srcSvgData.sort\<close> sorts the array of
  the caller in place, by \<^verbatim>\<open>iconName\<close>; the sorted list is returned with the content.
\<close>

definition createSvgSymbols :: "string \<Rightarrow> string \<Rightarrow> SvgData list \<Rightarrow> (SvgData list \<times> string) io" where
  \<open>createSvgSymbols version distDir srcSvgData =
     (let sorted = sort_key iconName srcSvgData;
          symbolsSvgFilePath = join distDir ''ionicons.symbols.svg'';
          lines =
            [''<svg data-ionicons="'' @ version @ ''" style="display:none">'',
             ''<style>'',
             ''.ionicon {'',
             ''  fill: currentColor;'',
             ''  stroke: currentColor;'',
             ''}'',
             ''.ionicon-fill-none {'',
             ''  fill: none;'',
             ''}'',
             ''.ionicon-stroke-width {'',
             ''  stroke-width: 32px;'',
             ''}'',
             ''</style>'']
      in case collect (map symbol_of sorted) of
           Inl e \<Rightarrow> io_fail e
         | Inr svgs \<Rightarrow>
             (let content = join_with newline (lines @ svgs @ [''</svg>'', ''''])
              in ([WriteFile symbolsSvgFilePath (Text (wide content))], Inr (sorted, content))))\<close>

text \<open>\<^verbatim>\<open>n.toString()\<close> for a length.\<close>

definition digit_char :: "nat \<Rightarrow> char" where
  "digit_char d = ''0123456789'' ! d"

function toString_nat :: "nat \<Rightarrow> string" where
  "toString_nat n =
     (if n < 10 then [digit_char n] else toString_nat (n div 10) @ [digit_char (n mod 10)])"
  by pat_completeness auto
termination
  by (relation "measure id") auto

declare toString_nat.simps [simp del]

text \<open>\<^verbatim>\<open>createCheatsheet(version, rootDir, distDir, svgSymbolsContent, srcSvgData)\<close>\<close>

definition createCheatsheet :: "world \<Rightarrow> string \<Rightarrow> string \<Rightarrow> string \<Rightarrow> string \<Rightarrow> SvgData list \<Rightarrow> unit io" where
  \<open>createCheatsheet w version rootDir distDir svgSymbolsContent srcSvgData =
     (let CheatsheetTmpFilePath = join (join rootDir ''scripts'') ''cheatsheet-template.html'';
          distCheatsheetFilePath = join distDir ''cheatsheet.html'';
          c = map (\<lambda>svgData. ''<svg><use href="#'' @ iconName svgData @
                               ''" xlink:href="#'' @ iconName svgData @ ''"/></svg>'') srcSvgData
              @ [svgSymbolsContent]
      in case readFile w CheatsheetTmpFilePath of
           None \<Rightarrow> io_fail (ReadError CheatsheetTmpFilePath)
         | Some template \<Rightarrow>
             (let html = js_replace_all ''{{content}}'' (join_with newline c)
                           (js_replace_all ''{{count}}'' (toString_nat (length srcSvgData))
                             (js_replace_all ''{{version}}'' version template))
              in io_do [WriteFile distCheatsheetFilePath (Text (wide html))]))\<close>

section \<open>The test fixtures\<close>

text \<open>
  \<^verbatim>\<open>copyToTesting(rootDir, distDir, srcSvgData)\<close>. \<^verbatim>\<open>writeFile\<close> rejects \<^verbatim>\<open>null\<close> as data.
\<close>

definition copyToTesting :: "string \<Rightarrow> string \<Rightarrow> SvgData list \<Rightarrow> unit io" where
  "copyToTesting rootDir distDir srcSvgData =
     (let testDir = join rootDir ''www'';
          testBuildDir = join testDir ''build'';
          testSvgDir = join testBuildDir ''svg''
      in io_bind (io_do [EnsureDir testSvgDir]) (\<lambda>_.
         io_bind (io_all (map (\<lambda>svgData.
                    case optimizedSvgContent svgData of
                      None \<Rightarrow> io_fail TypeError
                    | Some optimized \<Rightarrow>
                        io_do [WriteFile (join testSvgDir (fileName svgData))
                                 (Text (wide optimized))])
                  srcSvgData)) (\<lambda>_.
         io_do [CopyFile (join distDir ''cheatsheet.html'') (join testDir ''cheatsheet.html'')])))"

section \<open>The build\<close>

text \<open>
  \<^verbatim>\<open>build(rootDir)\<close>. The result is the list of operations performed and the error that
  ended the build, if any.
\<close>

definition build :: "world \<Rightarrow> string \<Rightarrow> unit io" where
  "build w rootDir =
     (let pkgJsonPath = join rootDir ''package.json'';
          srcDir = join rootDir ''src'';
          srcSvgDir = join srcDir ''svg'';
          iconDir = join rootDir ''icons'';
          distDir = join rootDir ''dist'';
          distIoniconsDir = join distDir ''ionicons''
      in io_bind (io_do [EmptyDir iconDir, EmptyDir distDir]) (\<lambda>_.
         io_bind (io_do [EmptyDir distIoniconsDir]) (\<lambda>_.
         io_bind (case pkgJson w pkgJsonPath of
                    None \<Rightarrow> io_fail (ReadError pkgJsonPath)
                  | Some version \<Rightarrow> io_ok version) (\<lambda>version.
         io_bind (getSvgs w srcSvgDir rootDir distIoniconsDir) (\<lambda>srcSvgData.
         io_bind (optimizeSvgs w srcSvgData) (\<lambda>srcSvgData.
         io_bind (io_all [createDataJson w version srcDir distDir srcSvgData,
                          createIconPackage version iconDir srcSvgData]) (\<lambda>_.
         io_bind (createSvgSymbols version distDir srcSvgData) (\<lambda>(srcSvgData, svgSymbolsContent).
         io_bind (createCheatsheet w version rootDir distDir svgSymbolsContent srcSvgData) (\<lambda>_.
         copyToTesting rootDir distDir srcSvgData)))))))))"

section \<open>Example inputs\<close>

text \<open>
  A project whose source directory lists the given file names: every file can be read, the
  manifest carries version \<^verbatim>\<open>5.0.0\<close>, there is no catalog yet, and the optimizer returns the
  markup as it is.
\<close>

definition example_world :: "string list \<Rightarrow> world" where
  "example_world listing =
     \<lparr>pkgJson = (\<lambda>p. Some ''5.0.0''),
      readdir = (\<lambda>p. Some listing),
      readFile = (\<lambda>p. Some ''<svg/>''),
      dataJson = (\<lambda>p. None),
      svgo_optimize = (\<lambda>markup. Some markup)\<rparr>"

definition example_record :: SvgData where
  "example_record =
     \<lparr>fileName = ''logo_no-smoking.svg'',
      srcFilePath = ''/r/src/svg/logo_no-smoking.svg'',
      optimizedFilePath = ''/r/dist/ionicons/svg/logo_no-smoking.svg'',
      srcSvgContent = ''<svg/>'',
      optimizedSvgContent = None,
      iconName = ''logo_no-smoking'',
      fileNameMjs = ''logo_no-smoking.mjs'',
      fileNameCjs = ''logo_no-smoking.js'',
      exportName = wide ''logoNoSmoking''\<rparr>"

definition example_record_a :: SvgData where
  "example_record_a =
     \<lparr>fileName = ''a.svg'',
      srcFilePath = ''/r/src/svg/a.svg'',
      optimizedFilePath = ''/r/dist/ionicons/svg/a.svg'',
      srcSvgContent = ''<svg/>'',
      optimizedSvgContent = None,
      iconName = ''a'',
      fileNameMjs = ''a.mjs'',
      fileNameCjs = ''a.js'',
      exportName = wide ''a''\<rparr>"

text \<open>
  Elements as the optimizer hands them to the plugin, none with a class attribute:
  \<^verbatim>\<open><path stroke-width="32"/>\<close>, \<^verbatim>\<open><path stroke="#000" stroke-width="32"/>\<close>,
  \<^verbatim>\<open><path d="M0 0" stroke-width="32"/>\<close>, \<^verbatim>\<open><path fill="none"/>\<close> and
  \<^verbatim>\<open><path fill="#fff" d="M0 0" stroke-width="16" stroke="#000"/>\<close>.
\<close>

definition element :: "(string \<times> string) list \<Rightarrow> item" where
  "element kv = \<lparr>isElem = True, attrs = Some kv, classAttr = False, classNames = []\<rparr>"

text \<open>
  A persisted catalog that a human editor has tagged, a persisted catalog with one name
  twice, and the catalog that a first build of a project with the single icon \<^verbatim>\<open>a.svg\<close>
  writes.
\<close>

definition example_catalog :: "icon list" where
  "example_catalog =
     [\<lparr>name = ''zebra'', tags = Some [''stripes'']\<rparr>,
      \<lparr>name = ''logo_no-smoking'', tags = Some [''smoke'', ''forbidden'']\<rparr>]"

definition example_duplicates :: "icon list" where
  "example_duplicates = [\<lparr>name = ''a'', tags = None\<rparr>, \<lparr>name = ''a'', tags = Some [''x'']\<rparr>]"

definition example_data :: JsonData where
  "example_data =
     \<lparr>data_icons = Some [\<lparr>name = ''a'', tags = Some [''a'']\<rparr>],
      data_version = None, data_others = []\<rparr>"

section \<open>Splitting and camel case\<close>

lemma split_on_not_Nil: "split_on p s \<noteq> []"
  by (induction s) (auto simp: Let_def)

lemma hd_split_on_Nil: "hd (split_on p s) = [] \<longleftrightarrow> s = [] \<or> p (hd s)"
  by (cases s) (auto simp: Let_def)

lemma Nil_in_split_on:
  "[] \<in> set (split_on p s) \<longleftrightarrow> hd (split_on p s) = [] \<or> [] \<in> set (tl (split_on p s))"
  using split_on_not_Nil [of p s] by (cases "split_on p s") auto

lemma adjacent_Cons:
  "(\<exists>i. Suc i < length (c # cs) \<and> p ((c # cs) ! i) \<and> p ((c # cs) ! Suc i)) \<longleftrightarrow>
     (cs \<noteq> [] \<and> p c \<and> p (hd cs)) \<or> (\<exists>i. Suc i < length cs \<and> p (cs ! i) \<and> p (cs ! Suc i))"
  (is "?L \<longleftrightarrow> ?A \<or> ?B")
proof
  assume ?L
  then obtain i where i: "Suc i < length (c # cs)" "p ((c # cs) ! i)" "p ((c # cs) ! Suc i)"
    by blast
  show "?A \<or> ?B"
  proof (cases i)
    case 0
    with i have "cs \<noteq> []" "p c" "p (cs ! 0)" by auto
    then show ?thesis by (simp add: hd_conv_nth)
  next
    case (Suc j)
    with i have "Suc j < length cs" "p (cs ! j)" "p (cs ! Suc j)" by auto
    then show ?thesis by blast
  qed
next
  assume "?A \<or> ?B"
  then show ?L
  proof
    assume ?A
    then have "Suc 0 < length (c # cs) \<and> p ((c # cs) ! 0) \<and> p ((c # cs) ! Suc 0)"
      by (cases cs) auto
    then show ?L by blast
  next
    assume ?B
    then obtain i where "Suc i < length cs" "p (cs ! i)" "p (cs ! Suc i)" by blast
    then have "Suc (Suc i) < length (c # cs) \<and> p ((c # cs) ! Suc i) \<and> p ((c # cs) ! Suc (Suc i))"
      by simp
    then show ?L by blast
  qed
qed

lemma empty_segment_iff:
  "[] \<in> set (tl (split_on p t)) \<longleftrightarrow>
     (t \<noteq> [] \<and> p (last t)) \<or> (\<exists>i. Suc i < length t \<and> p (t ! i) \<and> p (t ! Suc i))"
proof (induction t)
  case Nil
  then show ?case by simp
next
  case (Cons c cs)
  show ?case
  proof (cases "p c")
    case True
    have "[] \<in> set (tl (split_on p (c # cs))) \<longleftrightarrow> [] \<in> set (split_on p cs)"
      using True by simp
    also have "\<dots> \<longleftrightarrow> cs = [] \<or> p (hd cs) \<or> [] \<in> set (tl (split_on p cs))"
      by (simp add: Nil_in_split_on [of p cs] hd_split_on_Nil)
    finally show ?thesis
      unfolding adjacent_Cons Cons.IH using True by (cases cs) auto
  next
    case False
    have "[] \<in> set (tl (split_on p (c # cs))) \<longleftrightarrow> [] \<in> set (tl (split_on p cs))"
      using False by (simp add: Let_def)
    then show ?thesis
      unfolding adjacent_Cons Cons.IH using False by (cases cs) auto
  qed
qed

lemma length_split_on: "length (split_on p s) = Suc (length (filter p s))"
proof (induction s)
  case Nil
  then show ?case by simp
next
  case (Cons c cs)
  have "length (tl (split_on p cs)) = length (filter p cs)"
    using Cons by simp
  then show ?case using Cons by (simp add: Let_def)
qed

lemma collect_upFirst:
  "collect (map upFirst ws) = (if [] \<in> set ws then Inl TypeError else Inr (map camel_segment ws))"
proof (induction ws)
  case Nil
  then show ?case by simp
next
  case (Cons w ws)
  show ?case
  proof (cases w)
    case Nil
    then show ?thesis by simp
  next
    case (Cons c cs)
    then have "upFirst w = Inr (camel_segment w)"
      by (simp add: camel_segment_def toUpperCase_def toLowerCase_def drop_map)
    with Cons Cons.IH show ?thesis by auto
  qed
qed

lemma camelize_eq:
  "camelize t = (if [] \<in> set (tl (split_on is_sep t)) then Inl TypeError else Inr (camelize_spec t))"
proof -
  obtain w ws where s: "split_on is_sep t = w # ws"
    using split_on_not_Nil by (cases "split_on is_sep t") auto
  show ?thesis
    by (simp add: camelize_def camelize_spec_def s collect_upFirst)
qed

section \<open>Promises, the loader and the start of the build\<close>

lemma set_lefts: "set (lefts rs) = {e. Inl e \<in> set rs}"
  by (induction rs rule: lefts.induct) auto


lemma promise_all_cases:
  "(lefts rs = [] \<and> promise_all rs = Inr (rights rs)) \<or>
   (lefts rs \<noteq> [] \<and> (\<exists>e. e \<in> set (lefts rs) \<and> promise_all rs = Inl e))"
proof (cases "filter (\<lambda>e. \<not> deferred e) (lefts rs) @ filter deferred (lefts rs)")
  case Nil
  then have "lefts rs = []"
    by (cases "lefts rs") (auto split: if_splits)
  then show ?thesis by (simp add: promise_all_def)
next
  case (Cons e es)
  then have "e \<in> set (filter (\<lambda>e. \<not> deferred e) (lefts rs) @ filter deferred (lefts rs))"
    by simp
  then have "e \<in> set (lefts rs)" by auto
  moreover have "promise_all rs = Inl e"
    by (simp add: promise_all_def Cons)
  ultimately show ?thesis by auto
qed

lemma promise_all_fails: "Inl e \<in> set rs \<Longrightarrow> \<exists>e'. promise_all rs = Inl e'"
  using promise_all_cases [of rs] set_lefts [of rs] by auto


lemma getSvgs_listing:
  "readdir w d = Some listing \<Longrightarrow>
   getSvgs w d r o' =
     ([EmptyDir (join o' ''svg'')],
      case promise_all (map (svgDataOf w d (join o' ''svg'')) (filter is_svg_file listing)) of
        Inl e \<Rightarrow> Inl e
      | Inr xs \<Rightarrow> Inr (sort_key exportName xs))"
  by (simp add: getSvgs_def io_bind_def io_do_def io_ok_def split: sum.splits)

lemma getSvgs_fails:
  assumes "readdir w d = Some listing" "f \<in> set listing" "is_svg_file f"
    and "svgDataOf w d (join o' ''svg'') f = Inl e"
  shows "\<exists>e'. getSvgs w d r o' = ([EmptyDir (join o' ''svg'')], Inl e')"
proof -
  have "Inl e \<in> set (map (svgDataOf w d (join o' ''svg'')) (filter is_svg_file listing))"
    using assms by force
  from promise_all_fails [OF this] show ?thesis
    by (auto simp: getSvgs_listing [OF assms(1)])
qed

lemma build_loader_fails:
  assumes "getSvgs w (join (join rootDir ''src'') ''svg'') rootDir
             (join (join rootDir ''dist'') ''ionicons'') = (ops, Inl e)"
    and "filter writes_file ops = []"
  shows "(\<exists>e'. snd (build w rootDir) = Inl e') \<and> filter writes_file (fst (build w rootDir)) = []"
  using assms
  by (cases "pkgJson w (join rootDir ''package.json'')")
     (simp_all add: build_def io_bind_def io_do_def io_ok_def io_fail_def Let_def)

lemma hd_split_on: "hd (split_on p s) = takeWhile (\<lambda>c. \<not> p c) s"
  by (induction s) (auto simp: Let_def)

lemmas case_defs =
  toLowerCase_def toUpperCase_def lower_char_def upper_unit_def wide_def char_of_eq_iff






lemma toLowerCase_append: "toLowerCase (a @ b) = toLowerCase a @ toLowerCase b"
  by (simp add: toLowerCase_def)

lemma toLowerCase_svg: "toLowerCase ''.svg'' = ''.svg''"
  by (simp add: case_defs)

lemma svgDataOf_readFile:
  "readFile w' = readFile w \<Longrightarrow> svgDataOf w' d o' f = svgDataOf w d o' f"
  by (simp add: svgDataOf_def Let_def split: sum.splits)


section \<open>Reconciliation of the catalog\<close>

lemma add_new_icons_append:
  "\<exists>news. add_new_icons svgs icons = icons @ news \<and> distinct (map name news) \<and>
          set news = (\<lambda>n. \<lparr>name = n, tags = None\<rparr>) ` (iconName ` set svgs - name ` set icons)"
proof (induction svgs arbitrary: icons)
  case Nil
  then show ?case by (simp add: add_new_icons_def)
next
  case (Cons s svgs)
  let ?new = "\<lambda>n. \<lparr>name = n, tags = None\<rparr>"
  show ?case
  proof (cases "iconName s \<in> name ` set icons")
    case True
    then have step: "add_new_icon s icons = icons"
      by (auto simp: add_new_icon_def list_ex_iff)
    from Cons.IH [of icons] obtain news where
      n: "add_new_icons svgs icons = icons @ news" "distinct (map name news)"
         "set news = ?new ` (iconName ` set svgs - name ` set icons)"
      by blast
    have "iconName ` set (s # svgs) - name ` set icons = iconName ` set svgs - name ` set icons"
      using True by auto
    with n step show ?thesis
      by (simp add: add_new_icons_def)
  next
    case False
    then have step: "add_new_icon s icons = icons @ [?new (iconName s)]"
      by (force simp: add_new_icon_def list_ex_iff image_iff)
    from Cons.IH [of "icons @ [?new (iconName s)]"] obtain news where
      n: "add_new_icons svgs (icons @ [?new (iconName s)]) = (icons @ [?new (iconName s)]) @ news"
         "distinct (map name news)"
         "set news = ?new ` (iconName ` set svgs - name ` set (icons @ [?new (iconName s)]))"
      by blast
    have a: "add_new_icons (s # svgs) icons = icons @ (?new (iconName s) # news)"
      using n(1) step by (simp add: add_new_icons_def)
    have b: "distinct (map name (?new (iconName s) # news))"
      using n(2,3) by auto
    have c: "set (?new (iconName s) # news) = ?new ` (iconName ` set (s # svgs) - name ` set icons)"
      using n(3) False by auto
    from a b c show ?thesis by blast
  qed
qed

lemma remove_dead_icons_filter:
  "remove_dead_icons svgs icons = filter (\<lambda>d. name d \<in> iconName ` set svgs) icons"
  by (simp add: remove_dead_icons_def list_ex_iff image_iff)

lemma reconcile_decompose:
  "\<exists>news. distinct (map name news) \<and>
          set news = (\<lambda>n. \<lparr>name = n, tags = None\<rparr>) ` (iconName ` set svgs - name ` set icons) \<and>
          reconcile svgs icons =
            map fill_tags (sort_key name (filter (\<lambda>d. name d \<in> iconName ` set svgs) icons @ news))"
proof -
  from add_new_icons_append [of svgs icons] obtain news where
    n: "add_new_icons svgs icons = icons @ news" "distinct (map name news)"
       "set news = (\<lambda>n. \<lparr>name = n, tags = None\<rparr>) ` (iconName ` set svgs - name ` set icons)"
    by blast
  have "filter (\<lambda>d. name d \<in> iconName ` set svgs) news = news"
    using n(3) by (auto simp: filter_id_conv)
  then have "reconcile svgs icons =
      map fill_tags (sort_key name (filter (\<lambda>d. name d \<in> iconName ` set svgs) icons @ news))"
    by (simp add: reconcile_def sort_icons_def remove_dead_icons_filter n(1))
  with n(2,3) show ?thesis by blast
qed

lemma name_fill_tags [simp]: "name (fill_tags i) = name i"
  by (simp add: fill_tags_def)

lemma map_name_fill_tags [simp]: "map name (map fill_tags xs) = map name xs"
  by (simp add: comp_def)

lemma fill_tags_idem: "fill_tags (fill_tags i) = fill_tags i"
  by (simp add: fill_tags_def sorted_sort_id)

lemma set_reconcile_names: "name ` set (reconcile svgs icons) = iconName ` set svgs"
proof -
  from reconcile_decompose [of svgs icons] obtain news where
    n: "set news = (\<lambda>n. \<lparr>name = n, tags = None\<rparr>) ` (iconName ` set svgs - name ` set icons)"
       "reconcile svgs icons =
            map fill_tags (sort_key name (filter (\<lambda>d. name d \<in> iconName ` set svgs) icons @ news))"
    by blast
  have "name ` set (reconcile svgs icons) =
        name ` set (filter (\<lambda>d. name d \<in> iconName ` set svgs) icons) \<union> name ` set news"
    unfolding n(2) by (simp add: image_Un image_image)
  also have "\<dots> = iconName ` set svgs"
    unfolding n(1) by (force simp: image_iff)
  finally show ?thesis .
qed

lemma sorted_reconcile: "sorted (map name (reconcile svgs icons))"
  by (simp add: reconcile_def sort_icons_def comp_def)

lemma reconcile_idem: "reconcile svgs (reconcile svgs icons) = reconcile svgs icons"
proof -
  let ?out = "reconcile svgs icons"
  from add_new_icons_append [of svgs ?out] obtain news where
    n: "add_new_icons svgs ?out = ?out @ news"
       "set news = (\<lambda>n. \<lparr>name = n, tags = None\<rparr>) ` (iconName ` set svgs - name ` set ?out)"
    by blast
  have "news = []" using n(2) by (simp add: set_reconcile_names)
  then have 1: "add_new_icons svgs ?out = ?out" using n(1) by simp
  have 2: "remove_dead_icons svgs ?out = ?out"
    unfolding remove_dead_icons_filter filter_id_conv using set_reconcile_names [of svgs icons] by auto
  have 3: "sort_icons ?out = ?out"
    unfolding sort_icons_def by (rule sort_key_id_if_sorted) (rule sorted_reconcile)
  have 4: "map fill_tags ?out = ?out"
    by (simp add: reconcile_def fill_tags_idem)
  show ?thesis
    unfolding reconcile_def [of svgs ?out] 1 2 3 4 ..
qed

section \<open>The export identifier\<close>



text \<open>
  Claim C9. \<^verbatim>\<open>camelize\<close> is partial. An identifier has an empty segment after the first
  exactly when it ends in a separator or has two separators in a row; on such an
  identifier \<^verbatim>\<open>upFirst\<close> throws, so \<^verbatim>\<open>camelize\<close> throws. When the identifier is lowercase
  and has no period, its file \<^verbatim>\<open>t.svg\<close> passes the lowercase check and the period check,
  the loader's callback throws all the same, and the loader fails on every listing that
  contains the file.
\<close>

theorem camelize_empty_segment_throws:
  assumes "[] \<in> set (tl (split_on is_sep t))" and "toLowerCase t = t" and "CHR ''.'' \<notin> set t"
  shows "((t \<noteq> [] \<and> is_sep (last t)) \<or>
          (\<exists>i. Suc i < length t \<and> is_sep (t ! i) \<and> is_sep (t ! Suc i))) \<and>
         camelize t = Inl TypeError \<and>
         toLowerCase (t @ ''.svg'') = t @ ''.svg'' \<and>
         length (split_on (\<lambda>c. c = CHR ''.'') (t @ ''.svg'')) \<le> 2 \<and>
         svgDataOf w d (join o' ''svg'') (t @ ''.svg'') = Inl TypeError \<and>
         (readdir w d = Some listing \<and> t @ ''.svg'' \<in> set listing \<longrightarrow>
            (\<exists>e. snd (getSvgs w d r o') = Inl e))"
proof -
  let ?f = "t @ ''.svg''"
  let ?dot = "\<lambda>c. c = CHR ''.''"
  have 1: "(t \<noteq> [] \<and> is_sep (last t)) \<or>
           (\<exists>i. Suc i < length t \<and> is_sep (t ! i) \<and> is_sep (t ! Suc i))"
    using assms(1) by (simp add: empty_segment_iff)
  have 2: "camelize t = Inl TypeError"
    using assms(1) by (simp add: camelize_eq)
  have 3: "toLowerCase ?f = ?f"
    using assms(2) by (simp only: toLowerCase_append toLowerCase_svg)
  have nodot: "filter ?dot t = []"
    using assms(3) by (auto simp: filter_empty_conv)
  have 4: "length (split_on ?dot ?f) \<le> 2"
    by (simp add: length_split_on nodot)
  have "\<forall>c\<in>set t. c \<noteq> CHR ''.''"
    using assms(3) by auto
  then have "takeWhile (\<lambda>c. c \<noteq> CHR ''.'') ?f = t"
    by (simp add: takeWhile_append2)
  then have first: "hd (split_on ?dot ?f) = t"
    by (simp add: hd_split_on)
  have 5: "svgDataOf w d (join o' ''svg'') ?f = Inl TypeError"
    using 3 4 2 by (simp add: svgDataOf_def first del: split_on.simps)
  have "t \<noteq> []" using assms(1) by auto
  then obtain c cs where t: "t = c # cs" by (cases t) auto
  with assms(3) have "c \<noteq> CHR ''.''" by auto
  then have svg: "is_svg_file ?f"
    by (simp add: is_svg_file_def startsWith_def endsWith_def t)
  have 6: "readdir w d = Some listing \<and> ?f \<in> set listing \<longrightarrow>
           (\<exists>e. snd (getSvgs w d r o') = Inl e)"
    using getSvgs_fails [of w d listing ?f o' TypeError r] svg 5 by auto
  from 1 2 3 4 5 6 show ?thesis by blast
qed

theorem camelize_empty_segment_throws_witness:
  "camelize ''a--b'' = Inl TypeError \<and>
   svgDataOf (example_world [''a--b.svg'']) ''/r/src/svg'' (join ''/r/dist/ionicons'' ''svg'')
     ''a--b.svg'' = Inl TypeError \<and>
   (\<exists>e. snd (getSvgs (example_world [''a--b.svg'']) ''/r/src/svg'' ''/r'' ''/r/dist/ionicons'')
          = Inl e) \<and>
   camelize ''a-'' = Inl TypeError \<and>
   svgDataOf (example_world [''a-.svg'']) ''/r/src/svg'' (join ''/r/dist/ionicons'' ''svg'')
     ''a-.svg'' = Inl TypeError \<and>
   (\<exists>e. snd (getSvgs (example_world [''a-.svg'']) ''/r/src/svg'' ''/r'' ''/r/dist/ionicons'')
          = Inl e)"
proof -
  have a: "[] \<in> set (tl (split_on is_sep ''a--b''))" "toLowerCase ''a--b'' = ''a--b''"
          "CHR ''.'' \<notin> set ''a--b''"
    by (simp_all add: is_sep_def case_defs)
  have b: "[] \<in> set (tl (split_on is_sep ''a-''))" "toLowerCase ''a-'' = ''a-''"
          "CHR ''.'' \<notin> set ''a-''"
    by (simp_all add: is_sep_def case_defs)
  from camelize_empty_segment_throws [OF a, of "example_world [''a--b.svg'']" "''/r/src/svg''"
         "''/r/dist/ionicons''" "[''a--b.svg'']" "''/r''"]
       camelize_empty_segment_throws [OF b, of "example_world [''a-.svg'']" "''/r/src/svg''"
         "''/r/dist/ionicons''" "[''a-.svg'']" "''/r''"]
  show ?thesis by (simp add: example_world_def)
qed

section \<open>Files that abort the build, files that are passed over\<close>

text \<open>
  Claim C6. When the listing of the source directory contains a file name that is not
  hidden, is lowercase, ends in \<^verbatim>\<open>.svg\<close> and has more than one period, the loader throws, the
  build ends with an error, and the build has written no file: of the operations it
  performed none is a write or a copy.
\<close>

theorem build_aborts_on_second_period:
  assumes "readdir w (join (join rootDir ''src'') ''svg'') = Some listing"
    and "f \<in> set listing"
    and "\<not> startsWith f ''.''" and "endsWith f ''.svg''" and "toLowerCase f = f"
    and "1 < length (filter (\<lambda>c. c = CHR ''.'') f)"
  shows "(\<exists>e. snd (getSvgs w (join (join rootDir ''src'') ''svg'') rootDir
                     (join (join rootDir ''dist'') ''ionicons'')) = Inl e) \<and>
         (\<exists>e. snd (build w rootDir) = Inl e) \<and>
         filter writes_file (fst (build w rootDir)) = []"
proof -
  let ?src = "join (join rootDir ''src'') ''svg''"
  let ?dist = "join (join rootDir ''dist'') ''ionicons''"
  have "svgDataOf w ?src (join ?dist ''svg'') f = Inl (TooManyPeriods f)"
    using assms(5,6) by (simp add: svgDataOf_def length_split_on)
  from getSvgs_fails [OF assms(1,2) _ this, of rootDir] assms(3,4)
  obtain e where e: "getSvgs w ?src rootDir ?dist = ([EmptyDir (join ?dist ''svg'')], Inl e)"
    by (auto simp: is_svg_file_def)
  from build_loader_fails [OF e] e show ?thesis by simp
qed

theorem build_aborts_on_second_period_witness:
  "(\<exists>e. snd (getSvgs (example_world [''a.svg'', ''a.b.svg'']) (join (join ''/r'' ''src'') ''svg'')
            ''/r'' (join (join ''/r'' ''dist'') ''ionicons'')) = Inl e) \<and>
   (\<exists>e. snd (build (example_world [''a.svg'', ''a.b.svg'']) ''/r'') = Inl e) \<and>
   filter writes_file (fst (build (example_world [''a.svg'', ''a.b.svg'']) ''/r'')) = []"
proof -
  have l: "toLowerCase ''a.b.svg'' = ''a.b.svg''"
    by (simp add: case_defs)
  from build_aborts_on_second_period [of "example_world [''a.svg'', ''a.b.svg'']" "''/r''"
         "[''a.svg'', ''a.b.svg'']" "''a.b.svg''"]
  show ?thesis
    by (simp add: example_world_def startsWith_def endsWith_def l)
qed



section \<open>The attribute rules\<close>

text \<open>
  Claim C2. The rule for \<^verbatim>\<open>stroke-width="32"\<close> does not hold of the code. When that attribute
  is the last one left on its element, alone from the start or after \<^verbatim>\<open>stroke\<close> and \<^verbatim>\<open>fill\<close>
  have been removed before it, the plugin removes it and then adds the class: the removal
  deletes the attribute object of the item, and the class attribute lands where the item
  does not see it. The element is printed without \<^verbatim>\<open>stroke-width\<close> and without the class
  \<^verbatim>\<open>ionicon-stroke-width\<close>. With another attribute left, the class is printed. The branch
  for \<^verbatim>\<open>fill="none"\<close> adds the class first and removes the attribute second, and keeps the
  class also when \<^verbatim>\<open>fill\<close> is the only attribute. The other rules work as the claim says:
  \<^verbatim>\<open>fill\<close> and \<^verbatim>\<open>stroke\<close> are removed, \<^verbatim>\<open>stroke-width="16"\<close> stays.
\<close>

theorem stroke_width_class_lost:
  "printed_attrs (addFillNoneCss (element [(''stroke-width'', ''32'')])) = [] \<and>
   printed_classes (addFillNoneCss (element [(''stroke-width'', ''32'')])) = [] \<and>
   printed_attrs (addFillNoneCss (element [(''stroke'', ''#000''), (''stroke-width'', ''32'')])) = [] \<and>
   printed_classes (addFillNoneCss (element [(''stroke'', ''#000''), (''stroke-width'', ''32'')])) = [] \<and>
   printed_attrs (addFillNoneCss (element [(''d'', ''M0 0''), (''stroke-width'', ''32'')])) =
     [(''d'', ''M0 0'')] \<and>
   printed_classes (addFillNoneCss (element [(''d'', ''M0 0''), (''stroke-width'', ''32'')])) =
     [''ionicon-stroke-width''] \<and>
   printed_attrs (addFillNoneCss (element [(''fill'', ''none'')])) = [] \<and>
   printed_classes (addFillNoneCss (element [(''fill'', ''none'')])) = [''ionicon-fill-none''] \<and>
   printed_attrs (addFillNoneCss (element
      [(''fill'', ''#fff''), (''d'', ''M0 0''), (''stroke-width'', ''16''), (''stroke'', ''#000'')])) =
     [(''d'', ''M0 0''), (''stroke-width'', ''16'')] \<and>
   printed_classes (addFillNoneCss (element
      [(''fill'', ''#fff''), (''d'', ''M0 0''), (''stroke-width'', ''16''), (''stroke'', ''#000'')])) = []"
  by (simp add: element_def addFillNoneCss_def eachAttr_def eachAttr_step_def
        addFillNoneCss_attr_def removeAttr_def class_add_def printed_attrs_def
        printed_classes_def)

section \<open>The catalog after a build\<close>

lemma mset_names_reconcile:
  "mset (map name (reconcile svgs icons)) =
     mset (map name (filter (\<lambda>d. name d \<in> iconName ` set svgs) icons)) +
     mset_set (iconName ` set svgs - name ` set icons)"
proof -
  let ?new = "\<lambda>n. \<lparr>name = n, tags = None\<rparr>"
  from reconcile_decompose [of svgs icons] obtain news where
    n: "distinct (map name news)"
       "set news = ?new ` (iconName ` set svgs - name ` set icons)"
       "reconcile svgs icons =
          map fill_tags (sort_key name (filter (\<lambda>d. name d \<in> iconName ` set svgs) icons @ news))"
    by blast
  have "set (map name news) = iconName ` set svgs - name ` set icons"
    by (simp add: n(2) image_image)
  with mset_set_set [OF n(1)]
  have 1: "mset (map name news) = mset_set (iconName ` set svgs - name ` set icons)"
    by simp
  have "map name (reconcile svgs icons) =
        map name (sort_key name (filter (\<lambda>d. name d \<in> iconName ` set svgs) icons @ news))"
    unfolding n(3) by (rule map_name_fill_tags)
  then have "mset (map name (reconcile svgs icons)) =
        mset (map name (filter (\<lambda>d. name d \<in> iconName ` set svgs) icons)) + mset (map name news)"
    by simp
  with 1 show ?thesis by simp
qed

lemma mset_reconcile:
  "mset (reconcile svgs icons) =
     image_mset fill_tags
       (mset (filter (\<lambda>d. name d \<in> iconName ` set svgs) icons) +
        image_mset (\<lambda>n. \<lparr>name = n, tags = None\<rparr>)
          (mset_set (iconName ` set svgs - name ` set icons)))"
proof -
  let ?new = "\<lambda>n. \<lparr>name = n, tags = None\<rparr>"
  from reconcile_decompose [of svgs icons] obtain news where
    n: "distinct (map name news)"
       "set news = ?new ` (iconName ` set svgs - name ` set icons)"
       "reconcile svgs icons =
          map fill_tags (sort_key name (filter (\<lambda>d. name d \<in> iconName ` set svgs) icons @ news))"
    by blast
  from n(1) have d: "distinct news" by (simp add: distinct_map)
  have "inj_on ?new (iconName ` set svgs - name ` set icons)"
    by (auto intro: inj_onI)
  then have "image_mset ?new (mset_set (iconName ` set svgs - name ` set icons)) =
             mset_set (?new ` (iconName ` set svgs - name ` set icons))"
    by (simp add: image_mset_mset_set)
  also have "\<dots> = mset news"
    using mset_set_set [OF d] by (simp add: n(2))
  finally show ?thesis
    unfolding n(3) by simp
qed

text \<open>
  Claim C3. Reconciliation appends one tagless entry for each current icon identifier that
  the persisted catalog does not name, and only those; it removes exactly the entries
  whose name is not a current icon identifier; the names of the result are the current
  icon identifiers, each persisted name as often as it was persisted; and the result is
  sorted by name.
\<close>

theorem reconcile_adds_removes_sorts:
  "(\<exists>news. add_new_icons svgs icons = icons @ news \<and> distinct (map name news) \<and>
           set news = (\<lambda>n. \<lparr>name = n, tags = None\<rparr>) ` (iconName ` set svgs - name ` set icons)) \<and>
   remove_dead_icons svgs icons' = filter (\<lambda>d. name d \<in> iconName ` set svgs) icons' \<and>
   name ` set (reconcile svgs icons) = iconName ` set svgs \<and>
   mset (map name (reconcile svgs icons)) =
     mset (map name (filter (\<lambda>d. name d \<in> iconName ` set svgs) icons)) +
     mset_set (iconName ` set svgs - name ` set icons) \<and>
   sorted (map name (reconcile svgs icons))"
  using add_new_icons_append [of svgs icons] remove_dead_icons_filter [of svgs icons']
    set_reconcile_names [of svgs icons] mset_names_reconcile [of svgs icons]
    sorted_reconcile [of svgs icons]
  by blast

theorem reconcile_adds_removes_sorts_witness:
  "add_new_icons [example_record_a, example_record] example_catalog =
     example_catalog @ [\<lparr>name = ''a'', tags = None\<rparr>] \<and>
   remove_dead_icons [example_record_a, example_record]
     (example_catalog @ [\<lparr>name = ''a'', tags = None\<rparr>]) =
     [\<lparr>name = ''logo_no-smoking'', tags = Some [''smoke'', ''forbidden'']\<rparr>,
      \<lparr>name = ''a'', tags = None\<rparr>] \<and>
   name ` set (reconcile [example_record_a, example_record] example_catalog) =
     {''a'', ''logo_no-smoking''} \<and>
   sorted (map name (reconcile [example_record_a, example_record] example_catalog))"
proof -
  have 1: "add_new_icons [example_record_a, example_record] example_catalog =
     example_catalog @ [\<lparr>name = ''a'', tags = None\<rparr>]"
    by (simp add: add_new_icons_def add_new_icon_def example_catalog_def example_record_a_def
          example_record_def)
  from reconcile_adds_removes_sorts [of "[example_record_a, example_record]" example_catalog
              "example_catalog @ [\<lparr>name = ''a'', tags = None\<rparr>]"] 1
  show ?thesis
    by (simp add: example_catalog_def example_record_a_def example_record_def)
qed

lemma tags_fill_tags:
  "tags (fill_tags i) =
     Some (sort (case tags i of Some ts \<Rightarrow> ts | None \<Rightarrow> split_on (\<lambda>c. c = CHR ''-'') (name i)))"
  by (simp add: fill_tags_def)

text \<open>
  Claim C4. The entries of the result are the surviving persisted entries and the new
  tagless entries, each after the tag step. The tag step keeps the name; an entry without
  tags gets its name split on hyphens, sorted; an entry with tags gets the same tags
  sorted, none added and none removed.
\<close>

theorem tags_derived_or_resorted:
  "mset (reconcile svgs icons) =
     image_mset fill_tags
       (mset (filter (\<lambda>d. name d \<in> iconName ` set svgs) icons) +
        image_mset (\<lambda>n. \<lparr>name = n, tags = None\<rparr>)
          (mset_set (iconName ` set svgs - name ` set icons))) \<and>
   name (fill_tags i) = name i \<and>
   (tags i = None \<longrightarrow>
      tags (fill_tags i) = Some (sort (split_on (\<lambda>c. c = CHR ''-'') (name i)))) \<and>
   (\<forall>ts. tags i = Some ts \<longrightarrow>
      tags (fill_tags i) = Some (sort ts) \<and> mset (sort ts) = mset ts \<and> sorted (sort ts))"
  using mset_reconcile [of svgs icons] by (simp add: tags_fill_tags)

theorem tags_derived_or_resorted_witness:
  "tags (fill_tags \<lparr>name = ''logo-no-smoking'', tags = None\<rparr>) =
     Some [''logo'', ''no'', ''smoking''] \<and>
   tags (fill_tags \<lparr>name = ''logo_no-smoking'', tags = Some [''smoke'', ''forbidden'']\<rparr>) =
     Some [''forbidden'', ''smoke''] \<and>
   mset [''forbidden'', ''smoke''] = mset [''smoke'', ''forbidden'']"
proof -
  from tags_derived_or_resorted [of "[]" "[]" "\<lparr>name = ''logo-no-smoking'', tags = None\<rparr>"]
  have "tags (fill_tags \<lparr>name = ''logo-no-smoking'', tags = None\<rparr>) =
     Some [''logo'', ''no'', ''smoking'']"
    by simp
  moreover
  from tags_derived_or_resorted [of "[]" "[]" "\<lparr>name = ''logo_no-smoking'', tags = Some [''smoke'', ''forbidden'']\<rparr>"]
  have "tags (fill_tags \<lparr>name = ''logo_no-smoking'', tags = Some [''smoke'', ''forbidden'']\<rparr>) =
     Some [''forbidden'', ''smoke''] \<and>
   mset [''forbidden'', ''smoke''] = mset [''smoke'', ''forbidden'']"
    by simp
  ultimately show ?thesis by blast
qed

lemma distinct_reconcile_iff:
  "distinct (map name (reconcile svgs icons)) \<longleftrightarrow>
   distinct (map name (filter (\<lambda>d. name d \<in> iconName ` set svgs) icons))"
proof -
  let ?new = "\<lambda>n. \<lparr>name = n, tags = None\<rparr>"
  let ?live = "filter (\<lambda>d. name d \<in> iconName ` set svgs) icons"
  from reconcile_decompose [of svgs icons] obtain news where
    n: "distinct (map name news)"
       "set news = ?new ` (iconName ` set svgs - name ` set icons)"
       "reconcile svgs icons = map fill_tags (sort_key name (?live @ news))"
    by blast
  have "map name (reconcile svgs icons) = map name (sort_key name (?live @ news))"
    unfolding n(3) by (rule map_name_fill_tags)
  then have "mset (map name (reconcile svgs icons)) = mset (map name (?live @ news))"
    by simp
  then have "distinct (map name (reconcile svgs icons)) \<longleftrightarrow> distinct (map name (?live @ news))"
    by (rule mset_eq_imp_distinct_iff)
  also have "\<dots> \<longleftrightarrow> distinct (map name ?live)"
    using n(1,2) by (auto simp: image_image)
  finally show ?thesis .
qed

text \<open>
  Claim C5, as amended. Reconciliation adds no second entry for a name and removes no
  duplicate: the names of the result are distinct exactly when the names of the persisted
  entries of current icons are. In particular a persisted catalog without duplicate names
  gives a catalog without duplicate names, for every icon set.
\<close>

theorem reconcile_distinct_names:
  "(distinct (map name (reconcile svgs icons)) \<longleftrightarrow>
    distinct (map name (filter (\<lambda>d. name d \<in> iconName ` set svgs) icons))) \<and>
   (distinct (map name icons) \<longrightarrow> distinct (map name (reconcile svgs icons)))"
proof -
  have "distinct (map name icons) \<longrightarrow>
        distinct (map name (filter (\<lambda>d. name d \<in> iconName ` set svgs) icons))"
    by (simp add: distinct_map_filter)
  with distinct_reconcile_iff [of svgs icons] show ?thesis by blast
qed

theorem reconcile_distinct_names_witness:
  "distinct (map name example_catalog) \<and>
   distinct (map name (reconcile [example_record_a, example_record] example_catalog))"
proof -
  have "distinct (map name example_catalog)"
    by (simp add: example_catalog_def)
  with reconcile_distinct_names [of "[example_record_a, example_record]" example_catalog]
  show ?thesis by blast
qed

lemma reconcile_example_duplicates:
  "reconcile [example_record_a] example_duplicates =
     [\<lparr>name = ''a'', tags = Some [''a'']\<rparr>, \<lparr>name = ''a'', tags = Some [''x'']\<rparr>]"
  by (simp add: reconcile_def sort_icons_def remove_dead_icons_def add_new_icons_def
        add_new_icon_def fill_tags_def example_duplicates_def example_record_a_def)

text \<open>
  Claim C5 as stated fails: a persisted catalog that names the current icon \<^verbatim>\<open>a\<close> twice
  keeps both entries.
\<close>

theorem reconcile_keeps_duplicates:
  "\<not> distinct (map name (reconcile [example_record_a] example_duplicates))"
  by (simp add: reconcile_example_duplicates)

lemma tags_reconcile:
  assumes "i \<in> set (reconcile svgs icons)"
  shows "\<exists>ts. tags i = Some ts \<and> sorted ts"
proof -
  from assms obtain d where "i = fill_tags d"
    by (auto simp: reconcile_def)
  then show ?thesis by (simp add: tags_fill_tags)
qed

text \<open>
  Claim C8, as amended. \<^verbatim>\<open>createDataJson\<close> writes two files and cannot fail. The file at the
  source-of-truth location is the catalog as it was read (the empty object when it could
  not be read) with its \<^verbatim>\<open>icons\<close> replaced by the reconciled entries; every other property
  is as it was read, and none is added. The file at the distribution location holds the
  name \<^verbatim>\<open>ionicons\<close>, the version of the build and the same entries. The entries are sorted
  by name and each carries sorted tags.
\<close>

theorem catalog_files_written:
  "createDataJson w version srcDir distDir srcSvgData =
     ([WriteFile (join srcDir ''data.json'')
         (DataJson ((read_catalog w (join srcDir ''data.json''))
            \<lparr>data_icons := Some (reconcile srcSvgData
               (case data_icons (read_catalog w (join srcDir ''data.json'')) of
                  Some xs \<Rightarrow> xs | None \<Rightarrow> []))\<rparr>)),
       WriteFile (join distDir ''ionicons.json'')
         (DistJson \<lparr>dist_name = ''ionicons'', dist_version = version,
                    dist_icons = reconcile srcSvgData
                      (case data_icons (read_catalog w (join srcDir ''data.json'')) of
                         Some xs \<Rightarrow> xs | None \<Rightarrow> [])\<rparr>)],
      Inr ()) \<and>
   (dataJson w (join srcDir ''data.json'') = None \<longrightarrow>
      read_catalog w (join srcDir ''data.json'') = empty_data) \<and>
   (\<forall>d. dataJson w (join srcDir ''data.json'') = Some d \<longrightarrow>
      read_catalog w (join srcDir ''data.json'') = d) \<and>
   sorted (map name (reconcile srcSvgData icons)) \<and>
   (\<forall>i\<in>set (reconcile srcSvgData icons). \<exists>ts. tags i = Some ts \<and> sorted ts)"
proof -
  have 1: "createDataJson w version srcDir distDir srcSvgData =
     ([WriteFile (join srcDir ''data.json'')
         (DataJson ((read_catalog w (join srcDir ''data.json''))
            \<lparr>data_icons := Some (reconcile srcSvgData
               (case data_icons (read_catalog w (join srcDir ''data.json'')) of
                  Some xs \<Rightarrow> xs | None \<Rightarrow> []))\<rparr>)),
       WriteFile (join distDir ''ionicons.json'')
         (DistJson \<lparr>dist_name = ''ionicons'', dist_version = version,
                    dist_icons = reconcile srcSvgData
                      (case data_icons (read_catalog w (join srcDir ''data.json'')) of
                         Some xs \<Rightarrow> xs | None \<Rightarrow> [])\<rparr>)],
      Inr ())"
    by (simp add: createDataJson_def Let_def io_do_def)
  have 2: "dataJson w (join srcDir ''data.json'') = None \<longrightarrow>
      read_catalog w (join srcDir ''data.json'') = empty_data"
    by (simp add: read_catalog_def)
  have 3: "\<forall>d. dataJson w (join srcDir ''data.json'') = Some d \<longrightarrow>
      read_catalog w (join srcDir ''data.json'') = d"
    by (simp add: read_catalog_def)
  have 4: "\<forall>i\<in>set (reconcile srcSvgData icons). \<exists>ts. tags i = Some ts \<and> sorted ts"
    using tags_reconcile by blast
  from 1 2 3 4 sorted_reconcile [of srcSvgData icons] show ?thesis by blast
qed

theorem catalog_files_written_witness:
  "createDataJson (example_world [''a.svg'']) ''5.0.0'' ''/r/src'' ''/r/dist'' [example_record_a] =
     ([WriteFile ''/r/src/data.json''
         (DataJson \<lparr>data_icons = Some (reconcile [example_record_a] []),
                    data_version = None, data_others = []\<rparr>),
       WriteFile ''/r/dist/ionicons.json''
         (DistJson \<lparr>dist_name = ''ionicons'', dist_version = ''5.0.0'',
                    dist_icons = reconcile [example_record_a] []\<rparr>)],
      Inr ()) \<and>
   read_catalog (example_world [''a.svg'']) (join ''/r/src'' ''data.json'') = empty_data \<and>
   sorted (map name (reconcile [example_record_a] example_catalog)) \<and>
   (\<exists>ts. tags (hd (reconcile [example_record_a] example_catalog)) = Some ts \<and> sorted ts)"
proof -
  have n: "dataJson (example_world [''a.svg'']) (join ''/r/src'' ''data.json'') = None"
    by (simp add: example_world_def)
  have h: "hd (reconcile [example_record_a] example_catalog) \<in>
           set (reconcile [example_record_a] example_catalog)"
    by (simp add: reconcile_def sort_icons_def remove_dead_icons_def
        add_new_icons_def add_new_icon_def example_catalog_def example_record_a_def)
  from n h catalog_files_written [of "example_world [''a.svg'']" "''5.0.0''" "''/r/src''" "''/r/dist''"
         "[example_record_a]" example_catalog]
  show ?thesis
    by (simp add: empty_data_def join_def)
qed

text \<open>
  Claim C8 as stated fails: where no catalog could be read, the catalog written to the
  source-of-truth location has neither a version nor a name.
\<close>

theorem source_catalog_without_version:
  "createDataJson (example_world [''a.svg'']) ''5.0.0'' ''/r/src'' ''/r/dist'' [example_record_a] =
     ([WriteFile ''/r/src/data.json''
         (DataJson \<lparr>data_icons = Some [\<lparr>name = ''a'', tags = Some [''a'']\<rparr>],
                    data_version = None, data_others = []\<rparr>),
       WriteFile ''/r/dist/ionicons.json''
         (DistJson \<lparr>dist_name = ''ionicons'', dist_version = ''5.0.0'',
                    dist_icons = [\<lparr>name = ''a'', tags = Some [''a'']\<rparr>]\<rparr>)],
      Inr ())"
  by (simp add: createDataJson_def Let_def io_do_def read_catalog_def example_world_def
        empty_data_def join_def reconcile_def sort_icons_def remove_dead_icons_def
        add_new_icons_def add_new_icon_def fill_tags_def example_record_a_def)

section \<open>A second build\<close>

lemma in_io_bindE:
  assumes "op \<in> set (fst (io_bind m f))"
  obtains "op \<in> set (fst m)" | x where "snd m = Inr x" "op \<in> set (fst (f x))"
  using assms by (auto simp: io_bind_def split: sum.splits)

lemma io_bind_Inr: "snd m = Inr x \<Longrightarrow> io_bind m f = (fst m @ fst (f x), snd (f x))"
  by (simp add: io_bind_def)

lemma io_bind_do: "io_bind (io_do ops) f = (ops @ fst (f ()), snd (f ()))"
  by (simp add: io_bind_def io_do_def)

lemma io_bind_ok: "io_bind (io_ok x) f = f x"
  by (simp add: io_bind_def io_ok_def)

lemma fst_io_all: "fst (io_all ms) = concat (map fst ms)"
  by (simp add: io_all_def)

lemma fst_io_do: "fst (io_do ops) = ops"
  by (simp add: io_do_def)

lemma no_catalog_optimizeSvgs:
  "WriteFile p (DataJson d) \<notin> set (fst (optimizeSvgs w svgs))"
  by (auto simp: optimizeSvgs_def fst_io_all optimizeSvg_def io_fail_def
           split: option.splits)

lemma no_catalog_getSvgs:
  "WriteFile p (DataJson d) \<notin> set (fst (getSvgs w a b c))"
  by (auto simp: getSvgs_def Let_def io_bind_def io_do_def io_fail_def io_ok_def
           split: option.splits sum.splits)

lemma no_catalog_createEsmIcons:
  "WriteFile p (DataJson d) \<notin> set (fst (createEsmIcons v a b svgs))"
  unfolding createEsmIcons_def Let_def
  by (auto elim!: in_io_bindE simp: fst_io_all fst_io_do)

lemma no_catalog_createCjsIcons:
  "WriteFile p (DataJson d) \<notin> set (fst (createCjsIcons v a b svgs))"
  unfolding createCjsIcons_def Let_def
  by (auto elim!: in_io_bindE simp: fst_io_all fst_io_do)

lemma no_catalog_createDtsIcons:
  "WriteFile p (DataJson d) \<notin> set (fst (createDtsIcons v a svgs))"
  unfolding createDtsIcons_def Let_def
  by (auto simp: fst_io_do)

lemma no_catalog_createIconPackage:
  "WriteFile p (DataJson d) \<notin> set (fst (createIconPackage v a svgs))"
  unfolding createIconPackage_def Let_def
  by (auto elim!: in_io_bindE
           simp: fst_io_all fst_io_do no_catalog_createEsmIcons no_catalog_createCjsIcons
                 no_catalog_createDtsIcons)

lemma no_catalog_createSvgSymbols:
  "WriteFile p (DataJson d) \<notin> set (fst (createSvgSymbols v a svgs))"
  unfolding createSvgSymbols_def Let_def
  by (auto simp: io_fail_def split: sum.splits)

lemma no_catalog_createCheatsheet:
  "WriteFile p (DataJson d) \<notin> set (fst (createCheatsheet w v a b c svgs))"
  unfolding createCheatsheet_def Let_def
  by (auto simp: io_fail_def fst_io_do split: option.splits)

lemma no_catalog_copyToTesting:
  "WriteFile p (DataJson d) \<notin> set (fst (copyToTesting a b svgs))"
  unfolding copyToTesting_def Let_def
  by (auto elim!: in_io_bindE simp: fst_io_all fst_io_do io_fail_def split: option.splits)

lemma getSvgs_dataJson [simp]: "getSvgs (w\<lparr>dataJson := x\<rparr>) a b c = getSvgs w a b c"
proof -
  have "svgDataOf (w\<lparr>dataJson := x\<rparr>) a (join c ''svg'') = svgDataOf w a (join c ''svg'')"
    by (rule ext) (rule svgDataOf_readFile, simp)
  then show ?thesis by (simp add: getSvgs_def)
qed

lemma optimizeSvg_dataJson: "optimizeSvg (w\<lparr>dataJson := x\<rparr>) = optimizeSvg w"
  by (rule ext) (simp add: optimizeSvg_def split: option.splits)

lemma optimizeSvgs_dataJson [simp]: "optimizeSvgs (w\<lparr>dataJson := x\<rparr>) svgs = optimizeSvgs w svgs"
  by (simp add: optimizeSvgs_def optimizeSvg_dataJson)

lemma createCheatsheet_dataJson [simp]:
  "createCheatsheet (w\<lparr>dataJson := x\<rparr>) v a b c svgs = createCheatsheet w v a b c svgs"
  by (simp add: createCheatsheet_def)

lemma build_catalog_write:
  assumes "WriteFile p (DataJson d) \<in> set (fst (build w rootDir))"
  obtains version s0 s1 where
    "pkgJson w (join rootDir ''package.json'') = Some version"
    "snd (getSvgs w (join (join rootDir ''src'') ''svg'') rootDir
            (join (join rootDir ''dist'') ''ionicons'')) = Inr s0"
    "snd (optimizeSvgs w s0) = Inr s1"
    "WriteFile p (DataJson d) \<in>
       set (fst (createDataJson w version (join rootDir ''src'') (join rootDir ''dist'') s1))"
  using assms unfolding build_def Let_def
  by (auto elim!: in_io_bindE
           simp: fst_io_do fst_io_all no_catalog_getSvgs no_catalog_optimizeSvgs
             no_catalog_createIconPackage no_catalog_createSvgSymbols
             no_catalog_createCheatsheet no_catalog_copyToTesting io_fail_def io_ok_def
           split: option.splits prod.splits)

lemma in_io_bind_fst: "op \<in> set (fst m) \<Longrightarrow> op \<in> set (fst (io_bind m f))"
  by (simp add: io_bind_def split: sum.splits)

text \<open>
  Claim C7. When a build has written the catalog \<open>d\<close> to \<open>p\<close>, a second build that reads
  that catalog and otherwise the same inputs performs the same operations with the same
  contents and ends the same way: catalog, sprite, package and every other output are
  identical. Reconciling a reconciled catalog against the same icon records changes
  nothing. The sprite and the package are functions of the version, a directory and the
  icon records alone (\<open>createSvgSymbols\<close> and \<open>createIconPackage\<close> take nothing else).
\<close>

theorem second_build_identical:
  assumes "WriteFile p (DataJson d) \<in> set (fst (build w rootDir))"
  shows "build (w\<lparr>dataJson := (dataJson w)(p \<mapsto> d)\<rparr>) rootDir = build w rootDir \<and>
         reconcile svgs (reconcile svgs icons) = reconcile svgs icons"
proof -
  let ?w = "w\<lparr>dataJson := (dataJson w)(p \<mapsto> d)\<rparr>"
  let ?src = "join rootDir ''src''"
  let ?dist = "join rootDir ''dist''"
  from build_catalog_write [OF assms] obtain version s0 s1 where
    pkg: "pkgJson w (join rootDir ''package.json'') = Some version" and
    g: "snd (getSvgs w (join ?src ''svg'') rootDir (join ?dist ''ionicons'')) = Inr s0" and
    opt: "snd (optimizeSvgs w s0) = Inr s1" and
    wr: "WriteFile p (DataJson d) \<in> set (fst (createDataJson w version ?src ?dist s1))"
    by blast
  let ?icons = "reconcile s1 (case data_icons (read_catalog w (join ?src ''data.json'')) of
                               Some xs \<Rightarrow> xs | None \<Rightarrow> [])"
  from wr have p: "p = join ?src ''data.json''"
    and d: "d = (read_catalog w (join ?src ''data.json''))\<lparr>data_icons := Some ?icons\<rparr>"
    by (auto simp: createDataJson_def Let_def io_do_def)
  have rc: "read_catalog ?w (join ?src ''data.json'') = d"
    by (simp add: read_catalog_def p)
  have dj: "createDataJson ?w version ?src ?dist s1 = createDataJson w version ?src ?dist s1"
    unfolding createDataJson_def Let_def rc
    by (simp add: d reconcile_idem)
  have "build ?w rootDir = build w rootDir"
    unfolding build_def Let_def
    by (simp add: pkg io_bind_do io_bind_ok io_bind_Inr [OF g] io_bind_Inr [OF opt] dj)
  then show ?thesis by (simp add: reconcile_idem)
qed

theorem second_build_identical_witness:
  "WriteFile ''/r/src/data.json'' (DataJson example_data)
     \<in> set (fst (build (example_world [''a.svg'']) ''/r'')) \<and>
   build ((example_world [''a.svg''])
            \<lparr>dataJson := (dataJson (example_world [''a.svg'']))
                           (''/r/src/data.json'' \<mapsto> example_data)\<rparr>) ''/r'' =
     build (example_world [''a.svg'']) ''/r''"
proof -
  let ?w = "example_world [''a.svg'']"
  let ?src = "join ''/r'' ''src''"
  let ?dist = "join ''/r'' ''dist''"
  let ?opt = "example_record_a\<lparr>optimizedSvgContent := Some ''<svg/>''\<rparr>"
  have pkg: "pkgJson ?w (join ''/r'' ''package.json'') = Some ''5.0.0''"
    by (simp add: example_world_def)
  have l: "toLowerCase ''a.svg'' = ''a.svg''"
    by (simp add: case_defs)
  have c: "camelize ''a'' = Inr (wide ''a'')"
    by (simp add: camelize_def is_sep_def case_defs)
  have s: "svgDataOf ?w (join ?src ''svg'') (join (join ?dist ''ionicons'') ''svg'') ''a.svg'' =
           Inr example_record_a"
    by (simp add: svgDataOf_def l c example_world_def example_record_a_def join_def Let_def)
  have rd: "readdir ?w (join ?src ''svg'') = Some [''a.svg'']"
    by (simp add: example_world_def)
  have f: "filter is_svg_file [''a.svg''] = [''a.svg'']"
    by (simp add: is_svg_file_def startsWith_def endsWith_def)
  have pa: "promise_all (map (svgDataOf ?w (join ?src ''svg'') (join (join ?dist ''ionicons'') ''svg''))
                          (filter is_svg_file [''a.svg''])) = Inr [example_record_a]"
    apply (subst f)
    apply (simp add: s promise_all_def)
    done
  have g: "snd (getSvgs ?w (join ?src ''svg'') ''/r'' (join ?dist ''ionicons'')) =
           Inr [example_record_a]"
    by (simp only: getSvgs_listing [OF rd] pa) simp
  have o: "snd (optimizeSvgs ?w [example_record_a]) = Inr [?opt]"
    by (simp add: optimizeSvgs_def io_all_def promise_all_def optimizeSvg_def
          example_world_def)
  have dj: "WriteFile ''/r/src/data.json'' (DataJson example_data)
              \<in> set (fst (createDataJson ?w ''5.0.0'' ?src ?dist [?opt]))"
    by (simp add: createDataJson_def Let_def io_do_def read_catalog_def example_world_def
        empty_data_def join_def reconcile_def sort_icons_def remove_dead_icons_def
        add_new_icons_def add_new_icon_def fill_tags_def example_record_a_def example_data_def)
  have m: "WriteFile ''/r/src/data.json'' (DataJson example_data) \<in> set (fst (build ?w ''/r''))"
    unfolding build_def Let_def
    by (simp only: pkg option.case io_bind_do io_bind_ok io_bind_Inr [OF g] io_bind_Inr [OF o]
          fst_conv set_append Un_iff)
       (simp add: in_io_bind_fst fst_io_all dj)
  from second_build_identical [OF m] m show ?thesis by simp
qed

end
